theory Spec2Isabelle
  imports Main "HOL-Library.AList"
begin

section \<open>The route layer of weko-itemtypes-ui (views.py)\<close>

text \<open>
  The module is a set of Flask view functions over collaborators that live outside it: the
  records API (\<open>ItemTypes\<close>, \<open>ItemTypeProps\<close>, \<open>Mapping\<close>), the database
  session, the permission factory, the application configuration, the translation function
  and the JSON codec. The collaborators are parameters of the model (the record \<open>env\<close>);
  the view functions are translated statement by statement. A view is a computation over a
  \<open>world\<close> that either returns a response or raises a Python exception.
\<close>

subsection \<open>Values\<close>

text \<open>
  The values \<open>request.get_json()\<close> and \<open>json.loads\<close> produce. \<open>JNull\<close> is Python's
  \<open>None\<close>; \<open>JObj\<close> holds the items of a \<open>dict\<close> in insertion order.
\<close>

datatype json =
    JNull
  | JBool bool
  | JInt int
  | JStr string
  | JArr "json list"
  | JObj "(string \<times> json) list"

text \<open>
  The exceptions the views can meet. \<open>HTTPException c d\<close> is what \<open>abort(c, d)\<close> raises;
  \<open>OtherException\<close> stands for any further subclass of \<open>Exception\<close> a collaborator
  raises. \<open>KeyboardInterrupt\<close> and \<open>SystemExit\<close> derive from \<open>BaseException\<close> only.
\<close>

datatype exn =
    AttributeError
  | TypeError
  | KeyError string
  | JSONDecodeError
  | HTTPException nat "string option"
  | OtherException string
  | KeyboardInterrupt
  | SystemExit

text \<open>\<open>isinstance(e, Exception)\<close>: what a clause \<open>except Exception\<close> catches.\<close>

fun is_Exception :: "exn \<Rightarrow> bool" where
  "is_Exception KeyboardInterrupt = False"
| "is_Exception SystemExit = False"
| "is_Exception _ = True"

text \<open>The rows the records API hands out: an item type, the record \<open>ItemTypes.update\<close>
  returns (read through \<open>record.model.id\<close>), and a property.\<close>

record item_type =
  it_id :: int
  it_render :: json

record item_type_record =
  model :: item_type

record item_type_prop =
  prop_id :: int
  prop_name :: json
  prop_schema :: json
  prop_form :: json
  prop_forms :: json

subsection \<open>Requests and responses\<close>

record request =
  headers :: "string \<rightharpoonup> string"
  json_body :: "json option"

datatype url = Url_for string "(string \<times> int) list"

datatype template_arg =
    ArgItemTypes "item_type list"
  | ArgProps "item_type_prop list"
  | ArgStr string
  | ArgInt int

datatype response =
    Jsonify json
  | Render_template string "(string \<times> template_arg) list"
  | Redirect url

text \<open>The status Flask gives each kind of response.\<close>

fun status_code :: "response \<Rightarrow> nat" where
  "status_code (Jsonify _) = 200"
| "status_code (Render_template _ _) = 200"
| "status_code (Redirect _) = 302"

subsection \<open>The world: database session, call log, debug log\<close>

text \<open>
  Every call into the data layer and the session is recorded, in order, with its arguments.
\<close>

datatype dl_call =
    ItemTypes_get_latest_call
  | ItemTypes_get_all_call
  | ItemTypes_get_by_id_call int
  | ItemTypes_update_call int json json json json
  | ItemTypeProps_get_records_call
  | ItemTypeProps_get_record_call int
  | ItemTypeProps_create_call int json json json json
  | Mapping_create_call json json
  | Mapping_get_record_call int
  | Session_commit_call
  | Session_rollback_call

datatype logmsg = LogStr string | LogJson json | LogExn exn

text \<open>
  \<open>committed\<close> is the state of the store, \<open>session\<close> the state the open transaction
  sees; the type \<open>'db\<close> of both is left open.
\<close>

record 'db world =
  committed :: 'db
  session :: 'db
  calls :: "dl_call list"
  debug_log :: "logmsg list"

subsection \<open>The collaborators\<close>

text \<open>
  Reads return a value or raise; writes return a value or raise and leave the session in a
  new state either way. \<open>api_commit_error\<close> tells whether \<open>db.session.commit()\<close> raises
  on a session state. \<open>current_permission_factory\<close> is \<open>None\<close> or the verdict of
  \<open>permission().can()\<close> for this request.
\<close>

record 'db env =
  current_permission_factory :: "bool option"
  is_authenticated :: bool
  config :: "string \<rightharpoonup> string"
  gettext :: "string \<Rightarrow> string"
  json_loads :: "string \<Rightarrow> exn + json"
  json_dumps_indent4 :: "json \<Rightarrow> string"
  api_ItemTypes_get_latest :: "'db \<Rightarrow> exn + item_type list"
  api_ItemTypes_get_all :: "'db \<Rightarrow> exn + item_type list option"
  api_ItemTypes_get_by_id :: "int \<Rightarrow> 'db \<Rightarrow> exn + item_type option"
  api_ItemTypes_update ::
    "int \<Rightarrow> json \<Rightarrow> json \<Rightarrow> json \<Rightarrow> json \<Rightarrow> 'db \<Rightarrow> (exn + item_type_record) \<times> 'db"
  api_ItemTypeProps_get_records :: "'db \<Rightarrow> exn + item_type_prop list"
  api_ItemTypeProps_get_record :: "int \<Rightarrow> 'db \<Rightarrow> exn + item_type_prop option"
  api_ItemTypeProps_create ::
    "int \<Rightarrow> json \<Rightarrow> json \<Rightarrow> json \<Rightarrow> json \<Rightarrow> 'db \<Rightarrow> (exn + unit) \<times> 'db"
  api_Mapping_create :: "json \<Rightarrow> json \<Rightarrow> 'db \<Rightarrow> (exn + unit) \<times> 'db"
  api_Mapping_get_record :: "int \<Rightarrow> 'db \<Rightarrow> exn + json"
  api_commit_error :: "'db \<Rightarrow> exn option"

subsection \<open>Computations that raise and change the world\<close>

type_synonym ('a, 'db) M = "'db world \<Rightarrow> (exn + 'a) \<times> 'db world"

definition returnM :: "'a \<Rightarrow> ('a, 'db) M" where
  "returnM x = (\<lambda>w. (Inr x, w))"

definition liftE :: "exn + 'a \<Rightarrow> ('a, 'db) M" where
  "liftE r = (\<lambda>w. (r, w))"

definition bindM :: "('a, 'db) M \<Rightarrow> ('a \<Rightarrow> ('b, 'db) M) \<Rightarrow> ('b, 'db) M" where
  "bindM m f = (\<lambda>w. case m w of (Inl e, w') \<Rightarrow> (Inl e, w') | (Inr x, w') \<Rightarrow> f x w')"

text \<open>A bare \<open>except:\<close> catches everything; \<open>except Exception\<close> lets the rest pass.\<close>

definition try_except :: "('a, 'db) M \<Rightarrow> (exn \<Rightarrow> ('a, 'db) M) \<Rightarrow> ('a, 'db) M" where
  "try_except m h = (\<lambda>w. case m w of (Inl e, w') \<Rightarrow> h e w' | (Inr x, w') \<Rightarrow> (Inr x, w'))"

definition try_except_Exception ::
    "('a, 'db) M \<Rightarrow> (exn \<Rightarrow> ('a, 'db) M) \<Rightarrow> ('a, 'db) M" where
  "try_except_Exception m h =
     (\<lambda>w. case m w of
        (Inl e, w') \<Rightarrow> if is_Exception e then h e w' else (Inl e, w')
      | (Inr x, w') \<Rightarrow> (Inr x, w'))"

definition record_call :: "dl_call \<Rightarrow> 'db world \<Rightarrow> 'db world" where
  "record_call c w = w\<lparr>calls := calls w @ [c]\<rparr>"

definition logger_debug :: "logmsg \<Rightarrow> (unit, 'db) M" where
  "logger_debug m = (\<lambda>w. (Inr (), w\<lparr>debug_log := debug_log w @ [m]\<rparr>))"

text \<open>A read runs on the session state; a write replaces it.\<close>

definition dl_read :: "dl_call \<Rightarrow> ('db \<Rightarrow> exn + 'a) \<Rightarrow> ('a, 'db) M" where
  "dl_read c f = (\<lambda>w. (f (session w), record_call c w))"

definition dl_write :: "dl_call \<Rightarrow> ('db \<Rightarrow> (exn + 'a) \<times> 'db) \<Rightarrow> ('a, 'db) M" where
  "dl_write c f =
     (\<lambda>w. case f (session w) of (r, db') \<Rightarrow> (r, (record_call c w)\<lparr>session := db'\<rparr>))"

definition ItemTypes_get_latest :: "'db env \<Rightarrow> (item_type list, 'db) M" where
  "ItemTypes_get_latest env = dl_read ItemTypes_get_latest_call (api_ItemTypes_get_latest env)"

definition ItemTypes_get_all :: "'db env \<Rightarrow> (item_type list option, 'db) M" where
  "ItemTypes_get_all env = dl_read ItemTypes_get_all_call (api_ItemTypes_get_all env)"

definition ItemTypes_get_by_id :: "'db env \<Rightarrow> int \<Rightarrow> (item_type option, 'db) M" where
  "ItemTypes_get_by_id env i =
     dl_read (ItemTypes_get_by_id_call i) (api_ItemTypes_get_by_id env i)"

definition ItemTypes_update ::
    "'db env \<Rightarrow> int \<Rightarrow> json \<Rightarrow> json \<Rightarrow> json \<Rightarrow> json \<Rightarrow> (item_type_record, 'db) M" where
  "ItemTypes_update env i name schema form rend =
     dl_write (ItemTypes_update_call i name schema form rend)
       (api_ItemTypes_update env i name schema form rend)"

definition ItemTypeProps_get_records :: "'db env \<Rightarrow> (item_type_prop list, 'db) M" where
  "ItemTypeProps_get_records env =
     dl_read ItemTypeProps_get_records_call (api_ItemTypeProps_get_records env)"

definition ItemTypeProps_get_record :: "'db env \<Rightarrow> int \<Rightarrow> (item_type_prop option, 'db) M" where
  "ItemTypeProps_get_record env i =
     dl_read (ItemTypeProps_get_record_call i) (api_ItemTypeProps_get_record env i)"

definition ItemTypeProps_create ::
    "'db env \<Rightarrow> int \<Rightarrow> json \<Rightarrow> json \<Rightarrow> json \<Rightarrow> json \<Rightarrow> (unit, 'db) M" where
  "ItemTypeProps_create env i name schema form_single form_array =
     dl_write (ItemTypeProps_create_call i name schema form_single form_array)
       (api_ItemTypeProps_create env i name schema form_single form_array)"

definition Mapping_create :: "'db env \<Rightarrow> json \<Rightarrow> json \<Rightarrow> (unit, 'db) M" where
  "Mapping_create env i mapping =
     dl_write (Mapping_create_call i mapping) (api_Mapping_create env i mapping)"

definition Mapping_get_record :: "'db env \<Rightarrow> int \<Rightarrow> (json, 'db) M" where
  "Mapping_get_record env i =
     dl_read (Mapping_get_record_call i) (api_Mapping_get_record env i)"

text \<open>
  \<open>db.session.commit()\<close> makes the session state the committed one, or raises and commits
  nothing; \<open>db.session.rollback()\<close> throws the session state away.
\<close>

definition session_commit :: "'db env \<Rightarrow> (unit, 'db) M" where
  "session_commit env =
     (\<lambda>w. case api_commit_error env (session w) of
        Some e \<Rightarrow> (Inl e, record_call Session_commit_call w)
      | None \<Rightarrow> (Inr (), (record_call Session_commit_call w)\<lparr>committed := session w\<rparr>))"

definition session_rollback :: "(unit, 'db) M" where
  "session_rollback =
     (\<lambda>w. (Inr (), (record_call Session_rollback_call w)\<lparr>session := committed w\<rparr>))"

subsection \<open>Python and Flask primitives\<close>

text \<open>\<open>d.get(k)\<close>: the value or \<open>None\<close> on a dict, \<open>AttributeError\<close> on anything else.\<close>

definition dict_get :: "(string \<times> json) list \<Rightarrow> string \<Rightarrow> json" where
  "dict_get kvs k = (case map_of kvs k of None \<Rightarrow> JNull | Some v \<Rightarrow> v)"

fun py_get :: "json \<Rightarrow> string \<Rightarrow> exn + json" where
  "py_get (JObj kvs) k = Inr (dict_get kvs k)"
| "py_get _ k = Inl AttributeError"

definition bindE :: "exn + 'a \<Rightarrow> ('a \<Rightarrow> exn + 'b) \<Rightarrow> exn + 'b" where
  "bindE r f = (case r of Inl e \<Rightarrow> Inl e | Inr x \<Rightarrow> f x)"

text \<open>\<open>data.get(k1).get(k2)\<close>.\<close>

definition py_get2 :: "json \<Rightarrow> string \<Rightarrow> string \<Rightarrow> exn + json" where
  "py_get2 d k1 k2 = bindE (py_get d k1) (\<lambda>t. py_get t k2)"

text \<open>\<open>request.headers[k]\<close> and \<open>current_app.config[k]\<close> raise on a missing key.\<close>

definition headers_getitem :: "request \<Rightarrow> string \<Rightarrow> exn + string" where
  "headers_getitem req k = (case headers req k of None \<Rightarrow> Inl (KeyError k) | Some v \<Rightarrow> Inr v)"

definition config_getitem :: "'db env \<Rightarrow> string \<Rightarrow> exn + string" where
  "config_getitem env k = (case config env k of None \<Rightarrow> Inl (KeyError k) | Some v \<Rightarrow> Inr v)"

text \<open>
  \<open>request.get_json()\<close> on a request whose content type is JSON: the parsed body, or
  400 Bad Request when the body does not parse (\<open>json_body = None\<close>).
\<close>

definition get_json :: "request \<Rightarrow> exn + json" where
  "get_json req = (case json_body req of None \<Rightarrow> Inl (HTTPException 400 None) | Some d \<Rightarrow> Inr d)"

text \<open>\<open>json.loads(v)\<close>: only a string is parsed.\<close>

fun py_json_loads :: "'db env \<Rightarrow> json \<Rightarrow> exn + json" where
  "py_json_loads env (JStr s) = json_loads env s"
| "py_json_loads env _ = Inl TypeError"

text \<open>\<open>jsonify(msg=_(m))\<close>.\<close>

definition jsonify_msg :: "'db env \<Rightarrow> string \<Rightarrow> response" where
  "jsonify_msg env m = Jsonify (JObj [(''msg'', JStr (gettext env m))])"

text \<open>\<open>str(n)\<close> for an integer: JSON object keys and \<open>format\<close>.\<close>

fun str_nat :: "nat \<Rightarrow> string" where
  "str_nat n =
     (if n < 10 then [char_of (48 + n)] else str_nat (n div 10) @ [char_of (48 + n mod 10)])"

declare str_nat.simps [simp del]

definition str_int :: "int \<Rightarrow> string" where
  "str_int i = (if i < 0 then CHR ''-'' # str_nat (nat (- i)) else str_nat (nat i))"

subsection \<open>The permission gate\<close>

definition check_permission :: "'db env \<Rightarrow> bool option \<Rightarrow> bool \<Rightarrow> exn + unit" where
  "check_permission env permission hidden =
     (case permission of
        None \<Rightarrow> Inr ()
      | Some can \<Rightarrow>
          if \<not> can then
            (if hidden then Inl (HTTPException 404 None)
             else if is_authenticated env
               then Inl (HTTPException 403 (Some ''You do not have a permission for itemtype''))
               else Inl (HTTPException 401 None))
          else Inr ())"

definition need_permissions :: "bool \<Rightarrow> 'db env \<Rightarrow> ('a, 'db) M \<Rightarrow> ('a, 'db) M" where
  "need_permissions hidden env f =
     bindM (liftE (check_permission env (current_permission_factory env) hidden)) (\<lambda>_. f)"

text \<open>The decorator is written \<open>@need_permissions()\<close> on every route that has it.\<close>

definition need_permissions_default :: "'db env \<Rightarrow> ('a, 'db) M \<Rightarrow> ('a, 'db) M" where
  "need_permissions_default = need_permissions False"

subsection \<open>Item type views\<close>

definition index :: "'db env \<Rightarrow> int \<Rightarrow> (response, 'db) M" where
  "index env item_type_id =
     need_permissions_default env
       (bindM (ItemTypes_get_latest env) (\<lambda>lists.
        bindM (liftE (config_getitem env ''WEKO_ITEMTYPES_UI_REGISTER_TEMPLATE'')) (\<lambda>t.
        returnM (Render_template t
          [(''lists'', ArgItemTypes lists), (''id'', ArgInt item_type_id)]))))"

text \<open>
  In \<open>render\<close> the variable \<open>result\<close> holds an item type or a plain dict; the attribute
  \<open>render\<close> exists on the first only.
\<close>

datatype render_result = ItemTypeObj item_type | DictObj json

fun attr_render :: "render_result \<Rightarrow> exn + json" where
  "attr_render (ItemTypeObj it) = Inr (it_render it)"
| "attr_render (DictObj d) = Inl AttributeError"

definition empty_shape :: json where
  "empty_shape =
     JObj [(''table_row'', JArr []),
           (''table_row_map'', JObj []),
           (''meta_list'', JObj []),
           (''schemaeditor'', JObj [(''schema'', JObj [])])]"

definition render :: "'db env \<Rightarrow> int \<Rightarrow> (response, 'db) M" where
  "render env item_type_id =
     need_permissions_default env
       (bindM (if item_type_id > 0 then ItemTypes_get_by_id env item_type_id
               else returnM None) (\<lambda>result.
        bindM (liftE (attr_render
                 (case result of None \<Rightarrow> DictObj empty_shape | Some it \<Rightarrow> ItemTypeObj it)))
          (\<lambda>r. returnM (Jsonify r))))"

text \<open>
  The body of the \<open>try\<close> block of \<open>register\<close>. Python evaluates the arguments of a call
  from left to right before the call; the block yields the value of \<open>item_type_id\<close>
  after its reassignment.
\<close>

definition register_try :: "'db env \<Rightarrow> json \<Rightarrow> int \<Rightarrow> (int, 'db) M" where
  "register_try env data item_type_id =
     bindM (liftE (py_get2 data ''table_row_map'' ''name'')) (\<lambda>name.
     bindM (liftE (py_get2 data ''table_row_map'' ''schema'')) (\<lambda>schema.
     bindM (liftE (py_get2 data ''table_row_map'' ''form'')) (\<lambda>form.
     bindM (ItemTypes_update env item_type_id name schema form data) (\<lambda>record.
     bindM (returnM (if item_type_id = 0 then it_id (model record) else item_type_id))
       (\<lambda>item_type_id.
     bindM (liftE (py_get2 data ''table_row_map'' ''mapping'')) (\<lambda>mapping.
     bindM (Mapping_create env (JInt item_type_id) mapping) (\<lambda>_.
     bindM (session_commit env) (\<lambda>_.
     returnM item_type_id))))))))"

text \<open>
  A \<open>try\<close> block whose handler returns from the view yields \<open>Inl\<close> of the response
  returned there, and \<open>Inr\<close> of the block's value when control goes on after it.
\<close>

definition register :: "'db env \<Rightarrow> request \<Rightarrow> int \<Rightarrow> (response, 'db) M" where
  "register env req item_type_id =
     bindM (liftE (headers_getitem req ''Content-Type'')) (\<lambda>ct.
     if ct \<noteq> ''application/json'' then
       bindM (liftE (headers_getitem req ''Content-Type'')) (\<lambda>ct'.
       bindM (logger_debug (LogStr ct')) (\<lambda>_.
       returnM (jsonify_msg env ''Header Error'')))
     else
       bindM (liftE (get_json req)) (\<lambda>data.
       bindM (try_except
                (bindM (register_try env data item_type_id) (\<lambda>i. returnM (Inr i)))
                (\<lambda>_. bindM session_rollback (\<lambda>_.
                      returnM (Inl (jsonify_msg env ''Fail'')))))
         (\<lambda>r. case r of
                Inl resp \<Rightarrow> returnM resp
              | Inr item_type_id' \<Rightarrow>
                  bindM (logger_debug
                           (LogStr (''itemtype register: '' @ str_int item_type_id'))) (\<lambda>_.
                  returnM (jsonify_msg env ''Success'')))))"

subsection \<open>Property views\<close>

definition custom_property :: "'db env \<Rightarrow> (response, 'db) M" where
  "custom_property env =
     need_permissions_default env
       (bindM (ItemTypeProps_get_records env) (\<lambda>lists.
        bindM (liftE (config_getitem env ''WEKO_ITEMTYPES_UI_CREATE_PROPERTY'')) (\<lambda>t.
        returnM (Render_template t [(''lists'', ArgProps lists)]))))"

text \<open>
  The loop of \<open>get_property_list\<close>: \<open>lists[k.id] = tmp\<close> for each property in turn.
  \<open>jsonify\<close> writes the integer keys as strings.
\<close>

fun property_dict :: "item_type_prop list \<Rightarrow> (string \<times> json) list \<Rightarrow> (string \<times> json) list" where
  "property_dict [] tmps = tmps"
| "property_dict (k # props) tmps =
     property_dict props
       (AList.update (str_int (prop_id k))
          (JObj [(''name'', prop_name k), (''schema'', prop_schema k),
                 (''form'', prop_form k), (''forms'', prop_forms k)])
          tmps)"

definition get_property_list :: "'db env \<Rightarrow> (response, 'db) M" where
  "get_property_list env =
     need_permissions_default env
       (bindM (ItemTypeProps_get_records env) (\<lambda>props.
        returnM (Jsonify (JObj (property_dict props [])))))"

text \<open>Reading an attribute of \<open>prop\<close>, which is \<open>None\<close> when no such property exists.\<close>

fun prop_attr :: "item_type_prop option \<Rightarrow> (item_type_prop \<Rightarrow> 'a) \<Rightarrow> exn + 'a" where
  "prop_attr None f = Inl AttributeError"
| "prop_attr (Some p) f = Inr (f p)"

definition get_property :: "'db env \<Rightarrow> int \<Rightarrow> (response, 'db) M" where
  "get_property env property_id =
     need_permissions_default env
       (bindM (ItemTypeProps_get_record env property_id) (\<lambda>prop.
        bindM (liftE (prop_attr prop prop_id)) (\<lambda>pid.
        bindM (liftE (prop_attr prop prop_name)) (\<lambda>name.
        bindM (liftE (prop_attr prop prop_schema)) (\<lambda>schema.
        bindM (liftE (prop_attr prop prop_form)) (\<lambda>form.
        bindM (liftE (prop_attr prop prop_forms)) (\<lambda>forms.
        returnM (Jsonify (JObj [(''id'', JInt pid), (''name'', name), (''schema'', schema),
                                (''form'', form), (''forms'', forms)])))))))))"

definition custom_property_new :: "'db env \<Rightarrow> request \<Rightarrow> int \<Rightarrow> (response, 'db) M" where
  "custom_property_new env req property_id =
     bindM (liftE (headers_getitem req ''Content-Type'')) (\<lambda>ct.
     if ct \<noteq> ''application/json'' then
       bindM (liftE (headers_getitem req ''Content-Type'')) (\<lambda>ct'.
       bindM (logger_debug (LogStr ct')) (\<lambda>_.
       returnM (jsonify_msg env ''Header Error'')))
     else
       bindM (liftE (get_json req)) (\<lambda>data.
       bindM (try_except_Exception
                (bindM (liftE (py_get data ''name'')) (\<lambda>name.
                 bindM (liftE (py_get data ''schema'')) (\<lambda>schema.
                 bindM (liftE (py_get data ''form1'')) (\<lambda>form1.
                 bindM (liftE (py_get data ''form2'')) (\<lambda>form2.
                 bindM (ItemTypeProps_create env property_id name schema form1 form2) (\<lambda>_.
                 bindM (session_commit env) (\<lambda>_.
                 returnM (Inr ()))))))))
                (\<lambda>ex. bindM (logger_debug (LogExn ex)) (\<lambda>_.
                       bindM session_rollback (\<lambda>_.
                       returnM (Inl (jsonify_msg env ''Fail''))))))
         (\<lambda>r. case r of
                Inl resp \<Rightarrow> returnM resp
              | Inr _ \<Rightarrow> returnM (jsonify_msg env ''Success''))))"

subsection \<open>Mapping views\<close>

definition render_error_template :: "'db env \<Rightarrow> (response, 'db) M" where
  "render_error_template env =
     bindM (liftE (config_getitem env ''WEKO_ITEMTYPES_UI_ERROR_TEMPLATE'')) (\<lambda>t.
     returnM (Render_template t []))"

definition mapping_index :: "'db env \<Rightarrow> int \<Rightarrow> (response, 'db) M" where
  "mapping_index env ItemTypeID =
     bindM (ItemTypes_get_all env) (\<lambda>lists.
     case lists of
       None \<Rightarrow> render_error_template env
     | Some [] \<Rightarrow> render_error_template env
     | Some (first # rest) \<Rightarrow>
         bindM (ItemTypes_get_by_id env ItemTypeID) (\<lambda>item_type.
         case item_type of
           None \<Rightarrow>
             returnM (Redirect (Url_for ''.mapping_index'' [(''ItemTypeID'', it_id first)]))
         | Some _ \<Rightarrow>
             bindM (Mapping_get_record env ItemTypeID) (\<lambda>item_type_mapping.
             bindM (returnM (json_dumps_indent4 env item_type_mapping)) (\<lambda>mapping.
             bindM (logger_debug (LogStr mapping)) (\<lambda>_.
             bindM (liftE (config_getitem env ''WEKO_ITEMTYPES_UI_MAPPING_TEMPLATE'')) (\<lambda>t.
             returnM (Render_template t
               [(''lists'', ArgItemTypes (first # rest)), (''mapping'', ArgStr mapping),
                (''id'', ArgInt ItemTypeID)])))))))"

definition mapping_register :: "'db env \<Rightarrow> request \<Rightarrow> (response, 'db) M" where
  "mapping_register env req =
     bindM (liftE (headers_getitem req ''Content-Type'')) (\<lambda>ct.
     if ct \<noteq> ''application/json'' then
       bindM (liftE (headers_getitem req ''Content-Type'')) (\<lambda>ct'.
       bindM (logger_debug (LogStr ct')) (\<lambda>_.
       returnM (jsonify_msg env ''Header Error'')))
     else
       bindM (liftE (get_json req)) (\<lambda>data.
       bindM (logger_debug (LogJson data)) (\<lambda>_.
       bindM (try_except
                (bindM (liftE (py_get data ''item_type_id'')) (\<lambda>item_type_id.
                 bindM (liftE (bindE (py_get data ''mapping'') (py_json_loads env)))
                   (\<lambda>mapping.
                 bindM (Mapping_create env item_type_id mapping) (\<lambda>_.
                 bindM (session_commit env) (\<lambda>_.
                 returnM (Inr ()))))))
                (\<lambda>_. bindM session_rollback (\<lambda>_.
                      returnM (Inl (jsonify_msg env ''Fail'')))))
         (\<lambda>r. case r of
                Inl resp \<Rightarrow> returnM resp
              | Inr _ \<Rightarrow> returnM (jsonify_msg env ''Success'')))))"

subsection \<open>A small concrete data layer\<close>

text \<open>
  An in-memory store and a records API over it, to run the views on concrete requests.
  \<open>ItemTypes.update\<close> asserts a name and creates a row with a fresh id when the id is 0;
  \<open>Mapping.create\<close> rejects an empty mapping after touching the session.
\<close>

record demo_db =
  item_types :: "item_type list"
  item_type_props :: "item_type_prop list"
  mappings :: "(json \<times> json) list"

definition demo_update ::
    "int \<Rightarrow> json \<Rightarrow> json \<Rightarrow> json \<Rightarrow> json \<Rightarrow> demo_db \<Rightarrow> (exn + item_type_record) \<times> demo_db" where
  "demo_update i name schema form rend db =
     (if name = JNull then (Inl (OtherException ''AssertionError''), db)
      else if i = 0 then
        (Inr \<lparr>model = \<lparr>it_id = 1 + int (length (item_types db)), it_render = rend\<rparr>\<rparr>,
         db\<lparr>item_types := item_types db
               @ [\<lparr>it_id = 1 + int (length (item_types db)), it_render = rend\<rparr>]\<rparr>)
      else
        (Inr \<lparr>model = \<lparr>it_id = i, it_render = rend\<rparr>\<rparr>,
         db\<lparr>item_types := filter (\<lambda>t. it_id t \<noteq> i) (item_types db)
               @ [\<lparr>it_id = i, it_render = rend\<rparr>]\<rparr>))"

definition demo_props_create ::
    "int \<Rightarrow> json \<Rightarrow> json \<Rightarrow> json \<Rightarrow> json \<Rightarrow> demo_db \<Rightarrow> (exn + unit) \<times> demo_db" where
  "demo_props_create i name schema form1 form2 db =
     (if name = JNull then (Inl (OtherException ''IntegrityError''), db)
      else if name = JStr ''interrupt'' then (Inl KeyboardInterrupt, db)
      else (Inr (),
            db\<lparr>item_type_props := item_type_props db
                  @ [\<lparr>prop_id = i, prop_name = name, prop_schema = schema,
                      prop_form = form1, prop_forms = form2\<rparr>]\<rparr>))"

definition demo_mapping_create :: "json \<Rightarrow> json \<Rightarrow> demo_db \<Rightarrow> (exn + unit) \<times> demo_db" where
  "demo_mapping_create i m db =
     (if m = JNull
      then (Inl (OtherException ''IntegrityError''), db\<lparr>mappings := (i, JNull) # mappings db\<rparr>)
      else (Inr (), db\<lparr>mappings := AList.update i m (mappings db)\<rparr>))"

definition demo_json_loads :: "string \<Rightarrow> exn + json" where
  \<open>demo_json_loads s =
     (if s = ''{"a":1}'' then Inr (JObj [(''a'', JInt 1)])
      else if s = ''{}'' then Inr (JObj [])
      else if s = ''null'' then Inr JNull
      else Inl JSONDecodeError)\<close>

definition demo_json_dumps :: "json \<Rightarrow> string" where
  \<open>demo_json_dumps j =
     (if j = JNull then ''null''
      else if j = JObj [] then ''{}''
      else if j = JObj [(''a'', JInt 1)] then ''{\<newline>    "a": 1\<newline>}''
      else ''...'')\<close>

definition demo_config :: "string \<rightharpoonup> string" where
  "demo_config =
     map_of
       [(''WEKO_ITEMTYPES_UI_REGISTER_TEMPLATE'', ''weko_itemtypes_ui/register.html''),
        (''WEKO_ITEMTYPES_UI_CREATE_PROPERTY'', ''weko_itemtypes_ui/create_property.html''),
        (''WEKO_ITEMTYPES_UI_MAPPING_TEMPLATE'', ''weko_itemtypes_ui/create_mapping.html''),
        (''WEKO_ITEMTYPES_UI_ERROR_TEMPLATE'', ''weko_itemtypes_ui/error.html'')]"

definition demo_env :: "demo_db env" where
  "demo_env =
     \<lparr>current_permission_factory = Some True,
      is_authenticated = True,
      config = demo_config,
      gettext = (\<lambda>s. s),
      json_loads = demo_json_loads,
      json_dumps_indent4 = demo_json_dumps,
      api_ItemTypes_get_latest = (\<lambda>db. Inr (item_types db)),
      api_ItemTypes_get_all = (\<lambda>db. Inr (Some (item_types db))),
      api_ItemTypes_get_by_id = (\<lambda>i db. Inr (find (\<lambda>t. it_id t = i) (item_types db))),
      api_ItemTypes_update = demo_update,
      api_ItemTypeProps_get_records = (\<lambda>db. Inr (item_type_props db)),
      api_ItemTypeProps_get_record =
        (\<lambda>i db. Inr (find (\<lambda>p. prop_id p = i) (item_type_props db))),
      api_ItemTypeProps_create = demo_props_create,
      api_Mapping_create = demo_mapping_create,
      api_Mapping_get_record =
        (\<lambda>i db. Inr (case map_of (mappings db) (JInt i) of None \<Rightarrow> JNull | Some m \<Rightarrow> m)),
      api_commit_error = (\<lambda>_. None)\<rparr>"

text \<open>The same application with a permission factory that denies, and one whose commit fails.\<close>

definition demo_env_denied :: "bool \<Rightarrow> demo_db env" where
  "demo_env_denied authenticated =
     demo_env\<lparr>current_permission_factory := Some False, is_authenticated := authenticated\<rparr>"

definition demo_env_commit_fails :: "demo_db env" where
  "demo_env_commit_fails =
     demo_env\<lparr>api_commit_error := (\<lambda>_. Some (OtherException ''OperationalError''))\<rparr>"

text \<open>An application whose commit is cut short by \<open>SystemExit\<close>.\<close>

definition demo_env_commit_exits :: "demo_db env" where
  "demo_env_commit_exits = demo_env\<lparr>api_commit_error := (\<lambda>_. Some SystemExit)\<rparr>"

text \<open>A request that carries no header and no body.\<close>

definition bare_request :: request where
  "bare_request = \<lparr>headers = Map.empty, json_body = None\<rparr>"

definition empty_db :: demo_db where
  "empty_db = \<lparr>item_types = [], item_type_props = [], mappings = []\<rparr>"

definition one_db :: demo_db where
  "one_db =
     \<lparr>item_types = [\<lparr>it_id = 3, it_render = JObj [(''table_row'', JArr [JStr ''r1''])]\<rparr>],
      item_type_props = [],
      mappings = [(JInt 3, JObj [(''a'', JInt 1)])]\<rparr>"

definition start :: "'db \<Rightarrow> 'db world" where
  "start db = \<lparr>committed = db, session = db, calls = [], debug_log = []\<rparr>"

definition json_request :: "string \<Rightarrow> json \<Rightarrow> request" where
  "json_request ct body = \<lparr>headers = [''Content-Type'' \<mapsto> ct], json_body = Some body\<rparr>"

section \<open>Properties of the views\<close>

subsection \<open>Unfolding rules\<close>

lemmas M_defs = returnM_def liftE_def bindM_def try_except_def try_except_Exception_def
  logger_debug_def dl_read_def dl_write_def record_call_def session_commit_def
  session_rollback_def bindE_def

lemmas api_defs = ItemTypes_get_latest_def ItemTypes_get_all_def ItemTypes_get_by_id_def
  ItemTypes_update_def ItemTypeProps_get_records_def ItemTypeProps_get_record_def
  ItemTypeProps_create_def Mapping_create_def Mapping_get_record_def

lemmas gate_defs = need_permissions_def need_permissions_default_def check_permission_def

lemmas demo_defs = demo_env_def demo_env_denied_def demo_env_commit_fails_def
  demo_env_commit_exits_def bare_request_def demo_update_def
  demo_props_create_def demo_mapping_create_def demo_json_loads_def demo_json_dumps_def
  demo_config_def empty_db_def one_db_def start_def json_request_def

lemma py_get2_dict:
  "map_of kvs k1 = Some (JObj row_map) \<Longrightarrow>
     py_get2 (JObj kvs) k1 k2 = Inr (dict_get row_map k2)"
  by (simp add: py_get2_def bindE_def dict_get_def)

lemma json_request_headers:
  "headers (json_request ct b) ''Content-Type'' = Some ct"
  by (simp add: json_request_def)

lemma json_request_body: "json_body (json_request ct b) = Some b"
  by (simp add: json_request_def)

lemma demo_gettext: "gettext demo_env m = m"
  by (simp add: demo_env_def)

lemma demo_commit_ok: "api_commit_error demo_env d = None"
  by (simp add: demo_env_def)

subsection \<open>render\<close>

text \<open>
  C1. The claim: for a request to the render endpoint with id 0, or with an id that
  \<open>ItemTypes.get_by_id\<close> does not know, the view returns the fixed empty-shape document.
  The view does bind \<open>result\<close> to that document, and then evaluates \<open>result.render\<close>
  on it. A dict has no attribute \<open>render\<close>: whenever the permission gate lets the request
  through and the id is not positive or the lookup returns \<open>None\<close>, the view raises
  \<open>AttributeError\<close> and no document is returned.
\<close>

theorem render_empty_shape_raises:
  assumes "check_permission env (current_permission_factory env) False = Inr ()"
    and "item_type_id \<le> 0 \<or> api_ItemTypes_get_by_id env item_type_id (session w) = Inr None"
  shows "fst (render env item_type_id w) = Inl AttributeError"
  using assms
  by (auto simp add: render_def need_permissions_def need_permissions_default_def
      ItemTypes_get_by_id_def M_defs)

text \<open>The request \<open>GET /itemtypes/0/render\<close> of a permitted user.\<close>

theorem render_empty_shape_raises_witness:
  "check_permission demo_env (current_permission_factory demo_env) False = Inr ()
   \<and> (0::int) \<le> 0
   \<and> fst (render demo_env 0 (start one_db)) = Inl AttributeError"
  using render_empty_shape_raises [of demo_env 0 "start one_db"]
  by (simp add: check_permission_def demo_env_def)

subsection \<open>The permission gate on the GET routes\<close>

text \<open>
  The claim C2 says that a denied request to a gated GET route is aborted with 404. Every
  gated route is decorated with \<open>need_permissions()\<close>, whose \<open>hidden\<close> defaults to
  \<open>False\<close>; a denied anonymous request to the index page is aborted with 401.
\<close>

theorem index_denied_is_401_not_404:
  "current_permission_factory (demo_env_denied False) = Some False
   \<and> index (demo_env_denied False) 0 (start one_db)
       = (Inl (HTTPException 401 None), start one_db)"
  by (simp add: index_def gate_defs liftE_def bindM_def demo_env_denied_def demo_env_def)

text \<open>
  C2, as the code has it: when the permission factory denies, each gated GET view (index,
  render, custom_property, get_property_list, get_property) aborts before any other effect,
  with 403 and a description when the current user is authenticated and with 401 otherwise.
\<close>

theorem permission_denied_aborts_403_or_401:
  assumes "current_permission_factory env = Some False"
  shows "index env item_type_id w =
           (Inl (if is_authenticated env
                 then HTTPException 403 (Some ''You do not have a permission for itemtype'')
                 else HTTPException 401 None), w)
     \<and> render env item_type_id w =
           (Inl (if is_authenticated env
                 then HTTPException 403 (Some ''You do not have a permission for itemtype'')
                 else HTTPException 401 None), w)
     \<and> custom_property env w =
           (Inl (if is_authenticated env
                 then HTTPException 403 (Some ''You do not have a permission for itemtype'')
                 else HTTPException 401 None), w)
     \<and> get_property_list env w =
           (Inl (if is_authenticated env
                 then HTTPException 403 (Some ''You do not have a permission for itemtype'')
                 else HTTPException 401 None), w)
     \<and> get_property env property_id w =
           (Inl (if is_authenticated env
                 then HTTPException 403 (Some ''You do not have a permission for itemtype'')
                 else HTTPException 401 None), w)"
  using assms
  by (simp add: index_def render_def custom_property_def get_property_list_def get_property_def
      gate_defs liftE_def bindM_def)

text \<open>A denied request of an authenticated user to \<open>/itemtypes/3\<close>: 403.\<close>

theorem permission_denied_aborts_403_or_401_witness:
  "current_permission_factory (demo_env_denied True) = Some False
   \<and> index (demo_env_denied True) 3 (start one_db)
       = (Inl (HTTPException 403 (Some ''You do not have a permission for itemtype'')),
          start one_db)"
  using permission_denied_aborts_403_or_401 [of "demo_env_denied True" 3 "start one_db" 0]
  by (simp add: demo_env_denied_def)

subsection \<open>register\<close>

text \<open>
  C3. A POST to the register endpoint with id 0, the JSON content type and a body whose
  \<open>table_row_map\<close> is an object: once \<open>ItemTypes.update\<close> has returned the new record,
  \<open>Mapping.create\<close> is called with that record's id. When it returns and the commit goes
  through, the store holds the session state with both writes and the answer is Success.
  When \<open>Mapping.create\<close> or the commit raises, the session is rolled back, the store is the
  one the request started from (the item type is not in it), and the answer is Fail.
\<close>

theorem register_new_item_type_atomic:
  assumes hdr: "headers req ''Content-Type'' = Some ''application/json''"
    and body: "json_body req = Some (JObj kvs)"
    and trm: "map_of kvs ''table_row_map'' = Some (JObj row_map)"
    and upd: "api_ItemTypes_update env 0 (dict_get row_map ''name'') (dict_get row_map ''schema'')
                (dict_get row_map ''form'') (JObj kvs) (session w) = (Inr record, db1)"
    and mc: "api_Mapping_create env (JInt (it_id (model record))) (dict_get row_map ''mapping'') db1
                = (r, db2)"
  shows "register env req 0 w =
     (if r = Inr () \<and> api_commit_error env db2 = None
      then (Inr (Jsonify (JObj [(''msg'', JStr (gettext env ''Success''))])),
            w\<lparr>committed := db2, session := db2,
              calls := calls w @
                [ItemTypes_update_call 0 (dict_get row_map ''name'') (dict_get row_map ''schema'')
                   (dict_get row_map ''form'') (JObj kvs),
                 Mapping_create_call (JInt (it_id (model record))) (dict_get row_map ''mapping''),
                 Session_commit_call],
              debug_log := debug_log w
                @ [LogStr (''itemtype register: '' @ str_int (it_id (model record)))]\<rparr>)
      else (Inr (Jsonify (JObj [(''msg'', JStr (gettext env ''Fail''))])),
            w\<lparr>session := committed w,
              calls := calls w @
                [ItemTypes_update_call 0 (dict_get row_map ''name'') (dict_get row_map ''schema'')
                   (dict_get row_map ''form'') (JObj kvs),
                 Mapping_create_call (JInt (it_id (model record))) (dict_get row_map ''mapping'')]
                @ (if r = Inr () then [Session_commit_call] else [])
                @ [Session_rollback_call]\<rparr>))"
proof -
  have args: "py_get2 (JObj kvs) ''table_row_map'' k = Inr (dict_get row_map k)" for k
    using trm by (rule py_get2_dict)
  show ?thesis
  proof (cases r)
    case (Inl e)
    then show ?thesis
      using hdr body upd mc
      by (simp add: register_def register_try_def args headers_getitem_def get_json_def
          jsonify_msg_def M_defs api_defs)
  next
    case (Inr u)
    then show ?thesis
      using hdr body upd mc
      by (cases "api_commit_error env db2")
         (simp_all add: register_def register_try_def args headers_getitem_def get_json_def
          jsonify_msg_def M_defs api_defs)
  qed
qed

text \<open>
  Two requests on a store with one item type: a complete body, which is committed as item
  type 2 with its mapping, and a body without \<open>mapping\<close>, on which \<open>Mapping.create\<close>
  raises after \<open>ItemTypes.update\<close> has added item type 2 to the session.
\<close>

theorem register_new_item_type_atomic_witness:
  "register demo_env
     (json_request ''application/json''
        (JObj [(''table_row_map'', JObj [(''name'', JStr ''n''), (''mapping'', JObj [])])]))
     0 (start one_db)
   = (Inr (Jsonify (JObj [(''msg'', JStr ''Success'')])),
      \<lparr>committed = one_db\<lparr>item_types := item_types one_db @
                 [\<lparr>it_id = 2, it_render =
                     JObj [(''table_row_map'',
                            JObj [(''name'', JStr ''n''), (''mapping'', JObj [])])]\<rparr>],
               mappings := mappings one_db @ [(JInt 2, JObj [])]\<rparr>,
       session = one_db\<lparr>item_types := item_types one_db @
                 [\<lparr>it_id = 2, it_render =
                     JObj [(''table_row_map'',
                            JObj [(''name'', JStr ''n''), (''mapping'', JObj [])])]\<rparr>],
               mappings := mappings one_db @ [(JInt 2, JObj [])]\<rparr>,
       calls = [ItemTypes_update_call 0 (JStr ''n'') JNull JNull
                  (JObj [(''table_row_map'',
                          JObj [(''name'', JStr ''n''), (''mapping'', JObj [])])]),
                Mapping_create_call (JInt 2) (JObj []),
                Session_commit_call],
       debug_log = [LogStr ''itemtype register: 2'']\<rparr>)
   \<and> register demo_env
     (json_request ''application/json'' (JObj [(''table_row_map'', JObj [(''name'', JStr ''n'')])]))
     0 (start one_db)
   = (Inr (Jsonify (JObj [(''msg'', JStr ''Fail'')])),
      \<lparr>committed = one_db, session = one_db,
       calls = [ItemTypes_update_call 0 (JStr ''n'') JNull JNull
                  (JObj [(''table_row_map'', JObj [(''name'', JStr ''n'')])]),
                Mapping_create_call (JInt 2) JNull,
                Session_rollback_call],
       debug_log = []\<rparr>)"
proof -
  let ?rm1 = "[(''name'', JStr ''n''), (''mapping'', JObj [])]"
  let ?kvs1 = "[(''table_row_map'', JObj ?rm1)]"
  let ?rm2 = "[(''name'', JStr ''n'')]"
  let ?kvs2 = "[(''table_row_map'', JObj ?rm2)]"
  let ?rec1 = "\<lparr>model = \<lparr>it_id = 2, it_render = JObj ?kvs1\<rparr>\<rparr>"
  let ?rec2 = "\<lparr>model = \<lparr>it_id = 2, it_render = JObj ?kvs2\<rparr>\<rparr>"
  let ?db1 = "one_db\<lparr>item_types := item_types one_db
                @ [\<lparr>it_id = 2, it_render = JObj ?kvs1\<rparr>]\<rparr>"
  let ?db2 = "one_db\<lparr>item_types := item_types one_db
                @ [\<lparr>it_id = 2, it_render = JObj ?kvs2\<rparr>]\<rparr>"
  have trm1: "map_of ?kvs1 ''table_row_map'' = Some (JObj ?rm1)" by simp
  have trm2: "map_of ?kvs2 ''table_row_map'' = Some (JObj ?rm2)" by simp
  have upd1: "api_ItemTypes_update demo_env 0 (dict_get ?rm1 ''name'') (dict_get ?rm1 ''schema'')
                (dict_get ?rm1 ''form'') (JObj ?kvs1) (session (start one_db)) = (Inr ?rec1, ?db1)"
    by (simp add: demo_env_def demo_update_def dict_get_def start_def one_db_def)
  have upd2: "api_ItemTypes_update demo_env 0 (dict_get ?rm2 ''name'') (dict_get ?rm2 ''schema'')
                (dict_get ?rm2 ''form'') (JObj ?kvs2) (session (start one_db)) = (Inr ?rec2, ?db2)"
    by (simp add: demo_env_def demo_update_def dict_get_def start_def one_db_def)
  have mc1: "api_Mapping_create demo_env (JInt (it_id (model ?rec1))) (dict_get ?rm1 ''mapping'')
               ?db1 = (Inr (), ?db1\<lparr>mappings := mappings one_db @ [(JInt 2, JObj [])]\<rparr>)"
    by (simp add: demo_env_def demo_mapping_create_def dict_get_def one_db_def)
  have mc2: "api_Mapping_create demo_env (JInt (it_id (model ?rec2))) (dict_get ?rm2 ''mapping'')
               ?db2 = (Inl (OtherException ''IntegrityError''),
                       ?db2\<lparr>mappings := (JInt 2, JNull) # mappings one_db\<rparr>)"
    by (simp add: demo_env_def demo_mapping_create_def dict_get_def one_db_def)
  have s2: "str_int 2 = ''2''" by code_simp
  show ?thesis
    using register_new_item_type_atomic
            [OF json_request_headers json_request_body trm1 upd1 mc1]
          register_new_item_type_atomic
            [OF json_request_headers json_request_body trm2 upd2 mc2]
    by (simp add: demo_commit_ok demo_gettext s2 dict_get_def start_def one_db_def)
qed

subsection \<open>The content type check of the write views\<close>

text \<open>
  The claim C4 says that every POST to a write view whose Content-Type header is not exactly
  \<open>application/json\<close> is answered with Header Error. The three views read the header with
  \<open>request.headers['Content-Type']\<close>, which raises when the request has no such header:
  a POST without it ends in \<open>KeyError\<close> in each view, and no response is built.
\<close>

theorem post_without_content_type_raises_KeyError:
  "headers bare_request ''Content-Type'' = None
   \<and> register demo_env bare_request 0 (start one_db)
       = (Inl (KeyError ''Content-Type''), start one_db)
   \<and> custom_property_new demo_env bare_request 0 (start one_db)
       = (Inl (KeyError ''Content-Type''), start one_db)
   \<and> mapping_register demo_env bare_request (start one_db)
       = (Inl (KeyError ''Content-Type''), start one_db)"
  by (simp add: register_def custom_property_new_def mapping_register_def bare_request_def
      headers_getitem_def liftE_def bindM_def)

text \<open>
  C4, as the code has it. A POST to register, custom_property_new or mapping_register that
  carries a Content-Type header with any value but the string \<open>application/json\<close> is
  answered with the JSON document whose \<open>msg\<close> is the (translated) text Header Error, a
  response of status 200. The world after the request differs from the one before in the
  debug log only, which has the header value appended: no call reaches the data layer or the
  session, and the store and the session state are untouched. A POST that carries no
  Content-Type header raises \<open>KeyError\<close> at the header lookup in each of the three views,
  with the world unchanged.
\<close>

theorem header_error_no_data_layer_call:
  "(headers req ''Content-Type'' = Some ct \<and> ct \<noteq> ''application/json''
    \<longrightarrow> register env req item_type_id w =
           (Inr (Jsonify (JObj [(''msg'', JStr (gettext env ''Header Error''))])),
            w\<lparr>debug_log := debug_log w @ [LogStr ct]\<rparr>)
       \<and> custom_property_new env req property_id w =
           (Inr (Jsonify (JObj [(''msg'', JStr (gettext env ''Header Error''))])),
            w\<lparr>debug_log := debug_log w @ [LogStr ct]\<rparr>)
       \<and> mapping_register env req w =
           (Inr (Jsonify (JObj [(''msg'', JStr (gettext env ''Header Error''))])),
            w\<lparr>debug_log := debug_log w @ [LogStr ct]\<rparr>)
       \<and> status_code (Jsonify (JObj [(''msg'', JStr (gettext env ''Header Error''))])) = 200)
   \<and> (headers req ''Content-Type'' = None
    \<longrightarrow> register env req item_type_id w = (Inl (KeyError ''Content-Type''), w)
       \<and> custom_property_new env req property_id w = (Inl (KeyError ''Content-Type''), w)
       \<and> mapping_register env req w = (Inl (KeyError ''Content-Type''), w))"
  by (simp add: register_def custom_property_new_def mapping_register_def
      headers_getitem_def jsonify_msg_def liftE_def bindM_def returnM_def logger_debug_def)

text \<open>
  A form post to the mapping endpoint, and a post to the register endpoint that carries an
  Accept header only.
\<close>

theorem header_error_no_data_layer_call_witness:
  "mapping_register demo_env (json_request ''application/x-www-form-urlencoded'' JNull)
     (start one_db)
   = (Inr (Jsonify (JObj [(''msg'', JStr ''Header Error'')])),
      \<lparr>committed = one_db, session = one_db, calls = [],
       debug_log = [LogStr ''application/x-www-form-urlencoded'']\<rparr>)
   \<and> register demo_env \<lparr>headers = [''Accept'' \<mapsto> ''*/*''], json_body = None\<rparr> 5 (start one_db)
   = (Inl (KeyError ''Content-Type''), start one_db)"
  using header_error_no_data_layer_call
          [where req = "json_request ''application/x-www-form-urlencoded'' JNull"
             and ct = "''application/x-www-form-urlencoded''"
             and env = demo_env and w = "start one_db"]
        header_error_no_data_layer_call
          [where req = "\<lparr>headers = [''Accept'' \<mapsto> ''*/*''], json_body = None\<rparr>"
             and env = demo_env and w = "start one_db" and item_type_id = 5]
  by (simp add: json_request_headers demo_gettext start_def)

subsection \<open>The write views and the permission factory\<close>

lemma api_ignore_permission:
  "ItemTypes_update (env\<lparr>current_permission_factory := p, is_authenticated := a\<rparr>)
     = ItemTypes_update env"
  "ItemTypeProps_create (env\<lparr>current_permission_factory := p, is_authenticated := a\<rparr>)
     = ItemTypeProps_create env"
  "Mapping_create (env\<lparr>current_permission_factory := p, is_authenticated := a\<rparr>)
     = Mapping_create env"
  "session_commit (env\<lparr>current_permission_factory := p, is_authenticated := a\<rparr>)
     = session_commit env"
  "jsonify_msg (env\<lparr>current_permission_factory := p, is_authenticated := a\<rparr>)
     = jsonify_msg env"
  by (simp_all add: ItemTypes_update_def ItemTypeProps_create_def Mapping_create_def
      session_commit_def jsonify_msg_def fun_eq_iff)

lemma py_json_loads_ignore_permission:
  "py_json_loads (env\<lparr>current_permission_factory := p, is_authenticated := a\<rparr>)
     = py_json_loads env"
proof
  fix v
  show "py_json_loads (env\<lparr>current_permission_factory := p, is_authenticated := a\<rparr>) v
      = py_json_loads env v"
    by (cases v) simp_all
qed

text \<open>
  C9. None of register, custom_property_new and mapping_register is wrapped in
  \<open>need_permissions\<close> or calls \<open>check_permission\<close>: replacing the verdict of the permission
  factory and the login state of the caller by any other leaves each of the three views the
  same function of the request and the world, response and effects alike.
\<close>

theorem write_views_ignore_permission:
  "register (env\<lparr>current_permission_factory := p, is_authenticated := a\<rparr>) req item_type_id
     = register env req item_type_id
   \<and> custom_property_new (env\<lparr>current_permission_factory := p, is_authenticated := a\<rparr>)
       req property_id
     = custom_property_new env req property_id
   \<and> mapping_register (env\<lparr>current_permission_factory := p, is_authenticated := a\<rparr>) req
     = mapping_register env req"
  by (simp add: register_def register_try_def custom_property_new_def mapping_register_def
      api_ignore_permission py_json_loads_ignore_permission cong: if_cong sum.case_cong)

subsection \<open>Exceptions in the write views\<close>

text \<open>
  The claim C5 says that any exception raised by a data-layer call or the commit of a write
  view is answered with a rollback and Fail. The handlers of register and mapping_register are
  bare \<open>except:\<close> clauses; the one of custom_property_new is \<open>except Exception\<close>. When
  \<open>ItemTypeProps.create\<close> raises \<open>KeyboardInterrupt\<close>, custom_property_new passes it on
  and does not roll back.
\<close>

theorem custom_property_new_propagates_KeyboardInterrupt:
  "api_ItemTypeProps_create demo_env 0 (JStr ''interrupt'') JNull JNull JNull one_db
     = (Inl KeyboardInterrupt, one_db)
   \<and> custom_property_new demo_env
       (json_request ''application/json'' (JObj [(''name'', JStr ''interrupt'')])) 0 (start one_db)
     = (Inl KeyboardInterrupt,
        \<lparr>committed = one_db, session = one_db,
         calls = [ItemTypeProps_create_call 0 (JStr ''interrupt'') JNull JNull JNull],
         debug_log = []\<rparr>)"
  by (simp add: custom_property_new_def headers_getitem_def get_json_def jsonify_msg_def
      M_defs api_defs demo_defs dict_get_def)

text \<open>
  C5, as the code has it. With the JSON content type and a JSON object as body:
  register answers Fail, with the session rolled back and the store unchanged, when
  \<open>ItemTypes.update\<close> raises, and when \<open>Mapping.create\<close> or, after it, the commit raises;
  custom_property_new does so when \<open>ItemTypeProps.create\<close> or the commit raises an instance
  of \<open>Exception\<close>, after logging it; mapping_register does so when \<open>Mapping.create\<close> or
  the commit raises. In each case the last call is the rollback and nothing is raised.
  When \<open>ItemTypeProps.create\<close> or the commit raises an exception that is not an instance
  of \<open>Exception\<close>, custom_property_new raises that exception: the session keeps the state
  the data layer left, the store is unchanged, no rollback is called and nothing is logged.
  (\<open>jsonify_msg env m\<close> is the document whose \<open>msg\<close> is the translation of \<open>m\<close>.)
\<close>

theorem write_exception_rolls_back:
  "(headers req ''Content-Type'' = Some ''application/json'' \<and> json_body req = Some (JObj kvs)
      \<and> map_of kvs ''table_row_map'' = Some (JObj row_map)
      \<and> api_ItemTypes_update env item_type_id (dict_get row_map ''name'')
           (dict_get row_map ''schema'') (dict_get row_map ''form'') (JObj kvs) (session w)
         = (Inl e, db')
    \<longrightarrow> register env req item_type_id w =
          (Inr (jsonify_msg env ''Fail''),
           w\<lparr>session := committed w,
             calls := calls w @
               [ItemTypes_update_call item_type_id (dict_get row_map ''name'')
                  (dict_get row_map ''schema'') (dict_get row_map ''form'') (JObj kvs),
                Session_rollback_call]\<rparr>))
   \<and> (headers req ''Content-Type'' = Some ''application/json'' \<and> json_body req = Some (JObj kvs)
      \<and> map_of kvs ''table_row_map'' = Some (JObj row_map)
      \<and> api_ItemTypes_update env item_type_id (dict_get row_map ''name'')
           (dict_get row_map ''schema'') (dict_get row_map ''form'') (JObj kvs) (session w)
         = (Inr record, db')
      \<and> api_Mapping_create env
           (JInt (if item_type_id = 0 then it_id (model record) else item_type_id))
           (dict_get row_map ''mapping'') db' = (rm, db'')
      \<and> (rm = Inl e \<or> rm = Inr () \<and> api_commit_error env db'' = Some e)
    \<longrightarrow> register env req item_type_id w =
          (Inr (jsonify_msg env ''Fail''),
           w\<lparr>session := committed w,
             calls := calls w @
               [ItemTypes_update_call item_type_id (dict_get row_map ''name'')
                  (dict_get row_map ''schema'') (dict_get row_map ''form'') (JObj kvs),
                Mapping_create_call
                  (JInt (if item_type_id = 0 then it_id (model record) else item_type_id))
                  (dict_get row_map ''mapping'')]
               @ (if rm = Inr () then [Session_commit_call] else [])
               @ [Session_rollback_call]\<rparr>))
   \<and> (headers req ''Content-Type'' = Some ''application/json'' \<and> json_body req = Some (JObj kvs)
      \<and> api_ItemTypeProps_create env property_id (dict_get kvs ''name'') (dict_get kvs ''schema'')
           (dict_get kvs ''form1'') (dict_get kvs ''form2'') (session w) = (rp, db')
      \<and> (rp = Inl e \<or> rp = Inr () \<and> api_commit_error env db' = Some e)
      \<and> is_Exception e
    \<longrightarrow> custom_property_new env req property_id w =
          (Inr (jsonify_msg env ''Fail''),
           w\<lparr>session := committed w,
             calls := calls w @
               [ItemTypeProps_create_call property_id (dict_get kvs ''name'')
                  (dict_get kvs ''schema'') (dict_get kvs ''form1'') (dict_get kvs ''form2'')]
               @ (if rp = Inr () then [Session_commit_call] else [])
               @ [Session_rollback_call],
             debug_log := debug_log w @ [LogExn e]\<rparr>))
   \<and> (headers req ''Content-Type'' = Some ''application/json'' \<and> json_body req = Some (JObj kvs)
      \<and> py_json_loads env (dict_get kvs ''mapping'') = Inr mapping
      \<and> api_Mapping_create env (dict_get kvs ''item_type_id'') mapping (session w) = (rm, db')
      \<and> (rm = Inl e \<or> rm = Inr () \<and> api_commit_error env db' = Some e)
    \<longrightarrow> mapping_register env req w =
          (Inr (jsonify_msg env ''Fail''),
           w\<lparr>session := committed w,
             calls := calls w @
               [Mapping_create_call (dict_get kvs ''item_type_id'') mapping]
               @ (if rm = Inr () then [Session_commit_call] else [])
               @ [Session_rollback_call],
             debug_log := debug_log w @ [LogJson (JObj kvs)]\<rparr>))
   \<and> (headers req ''Content-Type'' = Some ''application/json'' \<and> json_body req = Some (JObj kvs)
      \<and> api_ItemTypeProps_create env property_id (dict_get kvs ''name'') (dict_get kvs ''schema'')
           (dict_get kvs ''form1'') (dict_get kvs ''form2'') (session w) = (rp, db')
      \<and> (rp = Inl e \<or> rp = Inr () \<and> api_commit_error env db' = Some e)
      \<and> \<not> is_Exception e
    \<longrightarrow> custom_property_new env req property_id w =
          (Inl e,
           w\<lparr>session := db',
             calls := calls w @
               [ItemTypeProps_create_call property_id (dict_get kvs ''name'')
                  (dict_get kvs ''schema'') (dict_get kvs ''form1'') (dict_get kvs ''form2'')]
               @ (if rp = Inr () then [Session_commit_call] else [])\<rparr>))"
  by (auto simp add: register_def register_try_def custom_property_new_def mapping_register_def
      py_get2_dict headers_getitem_def get_json_def jsonify_msg_def M_defs api_defs)

text \<open>
  A property post with an empty object, which the data layer rejects; a mapping post on an
  application whose commit fails; a property post on an application whose commit is cut short
  by \<open>SystemExit\<close>.
\<close>

theorem write_exception_rolls_back_witness:
  "custom_property_new demo_env (json_request ''application/json'' (JObj [])) 4 (start one_db)
     = (Inr (Jsonify (JObj [(''msg'', JStr ''Fail'')])),
        \<lparr>committed = one_db, session = one_db,
         calls = [ItemTypeProps_create_call 4 JNull JNull JNull JNull, Session_rollback_call],
         debug_log = [LogExn (OtherException ''IntegrityError'')]\<rparr>)
   \<and> mapping_register demo_env_commit_fails
       (json_request ''application/json''
          (JObj [(''item_type_id'', JInt 3), (''mapping'', JStr ''{}'')])) (start one_db)
     = (Inr (Jsonify (JObj [(''msg'', JStr ''Fail'')])),
        \<lparr>committed = one_db, session = one_db,
         calls = [Mapping_create_call (JInt 3) (JObj []), Session_commit_call,
                  Session_rollback_call],
         debug_log = [LogJson (JObj [(''item_type_id'', JInt 3), (''mapping'', JStr ''{}'')])]\<rparr>)
   \<and> custom_property_new demo_env_commit_exits
       (json_request ''application/json'' (JObj [(''name'', JStr ''title'')])) 6 (start one_db)
     = (Inl SystemExit,
        \<lparr>committed = one_db,
         session = one_db\<lparr>item_type_props :=
                     [\<lparr>prop_id = 6, prop_name = JStr ''title'', prop_schema = JNull,
                       prop_form = JNull, prop_forms = JNull\<rparr>]\<rparr>,
         calls = [ItemTypeProps_create_call 6 (JStr ''title'') JNull JNull JNull,
                  Session_commit_call],
         debug_log = []\<rparr>)"
proof -
  let ?kvs = "[(''item_type_id'', JInt 3), (''mapping'', JStr ''{}'')]"
  let ?pkvs = "[(''name'', JStr ''title'')]"
  let ?pdb = "one_db\<lparr>item_type_props :=
                     [\<lparr>prop_id = 6, prop_name = JStr ''title'', prop_schema = JNull,
                       prop_form = JNull, prop_forms = JNull\<rparr>]\<rparr>"
  have px: "api_ItemTypeProps_create demo_env_commit_exits 6 (JStr ''title'') JNull JNull JNull
              one_db = (Inr (), ?pdb)"
    by (simp add: demo_env_commit_exits_def demo_env_def demo_props_create_def one_db_def)
  have cx: "api_commit_error demo_env_commit_exits d = Some SystemExit" for d
    by (simp add: demo_env_commit_exits_def demo_env_def)
  have p: "api_ItemTypeProps_create demo_env 4 JNull JNull JNull JNull one_db
           = (Inl (OtherException ''IntegrityError''), one_db)"
    by (simp add: demo_env_def demo_props_create_def)
  have l: "json_loads demo_env_commit_fails ''{}'' = Inr (JObj [])"
    by (simp add: demo_env_commit_fails_def demo_env_def demo_json_loads_def)
  have m: "api_Mapping_create demo_env_commit_fails (JInt 3) (JObj []) one_db
           = (Inr (), one_db\<lparr>mappings := [(JInt 3, JObj [])]\<rparr>)"
    by (simp add: demo_env_commit_fails_def demo_env_def demo_mapping_create_def one_db_def)
  have c: "api_commit_error demo_env_commit_fails d = Some (OtherException ''OperationalError'')"
    for d by (simp add: demo_env_commit_fails_def demo_env_def)
  have g: "gettext demo_env_commit_fails s = s" for s
    by (simp add: demo_env_commit_fails_def demo_env_def)
  show ?thesis
    using write_exception_rolls_back
        [where req = "json_request ''application/json'' (JObj [])" and kvs = "[]"
           and env = demo_env and property_id = 4 and w = "start one_db"
           and rp = "Inl (OtherException ''IntegrityError'')" and db' = one_db
           and e = "OtherException ''IntegrityError''"]
      write_exception_rolls_back
        [where req = "json_request ''application/json'' (JObj ?kvs)" and kvs = ?kvs
           and env = demo_env_commit_fails and w = "start one_db" and mapping = "JObj []"
           and rm = "Inr ()" and db' = "one_db\<lparr>mappings := [(JInt 3, JObj [])]\<rparr>"
           and e = "OtherException ''OperationalError''"]
      write_exception_rolls_back
        [where req = "json_request ''application/json'' (JObj ?pkvs)" and kvs = ?pkvs
           and env = demo_env_commit_exits and property_id = 6 and w = "start one_db"
           and rp = "Inr ()" and db' = ?pdb and e = SystemExit]
    by (simp add: json_request_headers json_request_body p l m c g px cx demo_gettext
        jsonify_msg_def dict_get_def start_def)
qed

subsection \<open>Missing entities on the read paths\<close>

text \<open>With no property in the store, get_property_list answers the empty object.\<close>

lemma get_property_list_empty:
  assumes "check_permission env (current_permission_factory env) False = Inr ()"
    and "api_ItemTypeProps_get_records env (session w) = Inr []"
  shows "get_property_list env w
      = (Inr (Jsonify (JObj [])), w\<lparr>calls := calls w @ [ItemTypeProps_get_records_call]\<rparr>)"
  using assms
  by (simp add: get_property_list_def need_permissions_def need_permissions_default_def
      ItemTypeProps_get_records_def M_defs)

text \<open>
  C6. The claim: on the read paths (render, get_property, get_property_list, mapping_index) a
  lookup that finds nothing leads to an empty-shape default or a redirect, never to an error.
  Two of the four raise. get_property reads \<open>prop.id\<close> with no check for \<open>None\<close>, and
  render reads \<open>result.render\<close> on its fallback dict: for a permitted request, a property
  id that \<open>ItemTypeProps.get_record\<close> does not know and a positive item type id that
  \<open>ItemTypes.get_by_id\<close> does not know both end in \<open>AttributeError\<close>, right after the
  lookup.
\<close>

theorem read_paths_missing_entity_raise:
  assumes "check_permission env (current_permission_factory env) False = Inr ()"
  shows "(api_ItemTypeProps_get_record env property_id (session w) = Inr None
          \<longrightarrow> get_property env property_id w
              = (Inl AttributeError,
                 w\<lparr>calls := calls w @ [ItemTypeProps_get_record_call property_id]\<rparr>))
       \<and> (0 < item_type_id \<and> api_ItemTypes_get_by_id env item_type_id (session w) = Inr None
          \<longrightarrow> render env item_type_id w
              = (Inl AttributeError,
                 w\<lparr>calls := calls w @ [ItemTypes_get_by_id_call item_type_id]\<rparr>))"
  using assms
  by (simp add: get_property_def render_def need_permissions_def need_permissions_default_def
      ItemTypeProps_get_record_def ItemTypes_get_by_id_def M_defs)

text \<open>Property 99 and item type 7 on a store that holds item type 3 only.\<close>

theorem read_paths_missing_entity_raise_witness:
  "get_property demo_env 99 (start one_db)
     = (Inl AttributeError,
        \<lparr>committed = one_db, session = one_db, calls = [ItemTypeProps_get_record_call 99],
         debug_log = []\<rparr>)
   \<and> render demo_env 7 (start one_db)
     = (Inl AttributeError,
        \<lparr>committed = one_db, session = one_db, calls = [ItemTypes_get_by_id_call 7],
         debug_log = []\<rparr>)"
proof -
  have perm: "check_permission demo_env (current_permission_factory demo_env) False = Inr ()"
    by (simp add: check_permission_def demo_env_def)
  have p: "api_ItemTypeProps_get_record demo_env 99 one_db = Inr None"
    by (simp add: demo_env_def one_db_def)
  have i: "api_ItemTypes_get_by_id demo_env 7 one_db = Inr None"
    by (simp add: demo_env_def one_db_def)
  show ?thesis
    using read_paths_missing_entity_raise
        [OF perm, where property_id = 99 and item_type_id = 7 and w = "start one_db"]
    by (simp add: p i start_def)
qed

subsection \<open>mapping_index\<close>

text \<open>
  C7. The three outcomes of mapping_index. When \<open>ItemTypes.get_all\<close> returns \<open>None\<close> or
  the empty list, the view renders the configured error template and asks nothing else. When
  item types exist and \<open>ItemTypes.get_by_id\<close> returns \<open>None\<close> for the requested id, it
  redirects to \<open>url_for('.mapping_index')\<close> with the id of the first item type of the
  list. Otherwise it reads the mapping of the requested id and renders the configured mapping
  template with the list, the mapping serialised by \<open>json.dumps\<close> with indent 4, and the id.
\<close>

theorem mapping_index_cases:
  "(api_ItemTypes_get_all env (session w) = Inr found \<and> (found = None \<or> found = Some [])
      \<and> config env ''WEKO_ITEMTYPES_UI_ERROR_TEMPLATE'' = Some t
    \<longrightarrow> mapping_index env ItemTypeID w
        = (Inr (Render_template t []), w\<lparr>calls := calls w @ [ItemTypes_get_all_call]\<rparr>))
   \<and> (api_ItemTypes_get_all env (session w) = Inr (Some (first # rest))
      \<and> api_ItemTypes_get_by_id env ItemTypeID (session w) = Inr None
    \<longrightarrow> mapping_index env ItemTypeID w
        = (Inr (Redirect (Url_for ''.mapping_index'' [(''ItemTypeID'', it_id first)])),
           w\<lparr>calls := calls w @ [ItemTypes_get_all_call, ItemTypes_get_by_id_call ItemTypeID]\<rparr>))
   \<and> (api_ItemTypes_get_all env (session w) = Inr (Some (first # rest))
      \<and> api_ItemTypes_get_by_id env ItemTypeID (session w) = Inr (Some item_type)
      \<and> api_Mapping_get_record env ItemTypeID (session w) = Inr item_type_mapping
      \<and> config env ''WEKO_ITEMTYPES_UI_MAPPING_TEMPLATE'' = Some t
    \<longrightarrow> mapping_index env ItemTypeID w
        = (Inr (Render_template t
                 [(''lists'', ArgItemTypes (first # rest)),
                  (''mapping'', ArgStr (json_dumps_indent4 env item_type_mapping)),
                  (''id'', ArgInt ItemTypeID)]),
           w\<lparr>calls := calls w @ [ItemTypes_get_all_call, ItemTypes_get_by_id_call ItemTypeID,
                                 Mapping_get_record_call ItemTypeID],
             debug_log := debug_log w @ [LogStr (json_dumps_indent4 env item_type_mapping)]\<rparr>))"
  by (auto simp add: mapping_index_def render_error_template_def config_getitem_def
      ItemTypes_get_all_def ItemTypes_get_by_id_def Mapping_get_record_def M_defs)

text \<open>An empty store; a store with item type 3, asked for id 0 and for id 3.\<close>

theorem mapping_index_cases_witness:
  "mapping_index demo_env 3 (start empty_db)
     = (Inr (Render_template ''weko_itemtypes_ui/error.html'' []),
        \<lparr>committed = empty_db, session = empty_db, calls = [ItemTypes_get_all_call],
         debug_log = []\<rparr>)
   \<and> mapping_index demo_env 0 (start one_db)
     = (Inr (Redirect (Url_for ''.mapping_index'' [(''ItemTypeID'', 3)])),
        \<lparr>committed = one_db, session = one_db,
         calls = [ItemTypes_get_all_call, ItemTypes_get_by_id_call 0], debug_log = []\<rparr>)
   \<and> mapping_index demo_env 3 (start one_db)
     = (Inr (Render_template ''weko_itemtypes_ui/create_mapping.html''
               [(''lists'', ArgItemTypes (item_types one_db)),
                (''mapping'', ArgStr (demo_json_dumps (JObj [(''a'', JInt 1)]))),
                (''id'', ArgInt 3)]),
        \<lparr>committed = one_db, session = one_db,
         calls = [ItemTypes_get_all_call, ItemTypes_get_by_id_call 3, Mapping_get_record_call 3],
         debug_log = [LogStr (demo_json_dumps (JObj [(''a'', JInt 1)]))]\<rparr>)"
proof -
  let ?it = "\<lparr>it_id = 3, it_render = JObj [(''table_row'', JArr [JStr ''r1''])]\<rparr>"
  have a0: "api_ItemTypes_get_all demo_env empty_db = Inr (Some [])"
    by (simp add: demo_env_def empty_db_def)
  have a1: "api_ItemTypes_get_all demo_env one_db = Inr (Some [?it])"
    by (simp add: demo_env_def one_db_def)
  have g0: "api_ItemTypes_get_by_id demo_env 0 one_db = Inr None"
    by (simp add: demo_env_def one_db_def)
  have g3: "api_ItemTypes_get_by_id demo_env 3 one_db = Inr (Some ?it)"
    by (simp add: demo_env_def one_db_def)
  have m3: "api_Mapping_get_record demo_env 3 one_db = Inr (JObj [(''a'', JInt 1)])"
    by (simp add: demo_env_def one_db_def)
  have c: "config demo_env = demo_config" "json_dumps_indent4 demo_env = demo_json_dumps"
    by (simp_all add: demo_env_def)
  have its: "item_types one_db = [?it]" by (simp add: one_db_def)
  show ?thesis
    using mapping_index_cases
        [where env = demo_env and w = "start empty_db" and found = "Some []" and ItemTypeID = 3
           and t = "''weko_itemtypes_ui/error.html''"]
      mapping_index_cases
        [where env = demo_env and w = "start one_db" and first = ?it and rest = "[]"
           and ItemTypeID = 0]
      mapping_index_cases
        [where env = demo_env and w = "start one_db" and first = ?it and rest = "[]"
           and ItemTypeID = 3 and item_type = ?it
           and item_type_mapping = "JObj [(''a'', JInt 1)]"
           and t = "''weko_itemtypes_ui/create_mapping.html''"]
    by (simp add: a0 a1 g0 g3 m3 c its demo_config_def start_def)
qed

subsection \<open>mapping_register\<close>

text \<open>
  C8. A POST to mapping_register with the JSON content type and a body whose \<open>mapping\<close> is
  a string that \<open>json.loads\<close> parses: \<open>Mapping.create\<close> is called with the body's
  \<open>item_type_id\<close> and the parsed value, not the string; when it returns and the commit goes
  through, the commit is the next and last call, the store holds the result, and the answer
  is Success.
\<close>

theorem mapping_register_stores_parsed:
  assumes "headers req ''Content-Type'' = Some ''application/json''"
    and "json_body req = Some (JObj kvs)"
    and "map_of kvs ''mapping'' = Some (JStr s)"
    and "json_loads env s = Inr mapping"
    and "api_Mapping_create env (dict_get kvs ''item_type_id'') mapping (session w) = (Inr (), db')"
    and "api_commit_error env db' = None"
  shows "mapping_register env req w =
          (Inr (Jsonify (JObj [(''msg'', JStr (gettext env ''Success''))])),
           w\<lparr>committed := db', session := db',
             calls := calls w @
               [Mapping_create_call (dict_get kvs ''item_type_id'') mapping, Session_commit_call],
             debug_log := debug_log w @ [LogJson (JObj kvs)]\<rparr>)"
proof -
  have "py_json_loads env (dict_get kvs ''mapping'') = Inr mapping"
    using assms(3,4) by (simp add: dict_get_def)
  then show ?thesis
    using assms(1,2,5,6)
    by (simp add: mapping_register_def headers_getitem_def get_json_def jsonify_msg_def
        M_defs Mapping_create_def)
qed

text \<open>The body \<open>{"item_type_id":5,"mapping":"{\"a\":1}"}\<close> on an empty store.\<close>

theorem mapping_register_stores_parsed_witness:
  \<open>mapping_register demo_env
     (json_request ''application/json''
        (JObj [(''item_type_id'', JInt 5), (''mapping'', JStr ''{"a":1}'')]))
     (start empty_db)
   = (Inr (Jsonify (JObj [(''msg'', JStr ''Success'')])),
      \<lparr>committed = empty_db\<lparr>mappings := [(JInt 5, JObj [(''a'', JInt 1)])]\<rparr>,
       session = empty_db\<lparr>mappings := [(JInt 5, JObj [(''a'', JInt 1)])]\<rparr>,
       calls = [Mapping_create_call (JInt 5) (JObj [(''a'', JInt 1)]), Session_commit_call],
       debug_log =
         [LogJson (JObj [(''item_type_id'', JInt 5), (''mapping'', JStr ''{"a":1}'')])]\<rparr>)\<close>
proof -
  let ?kvs = \<open>[(''item_type_id'', JInt 5), (''mapping'', JStr ''{"a":1}'')]\<close>
  have k: \<open>map_of ?kvs ''mapping'' = Some (JStr ''{"a":1}'')\<close> by simp
  have l: \<open>json_loads demo_env ''{"a":1}'' = Inr (JObj [(''a'', JInt 1)])\<close>
    by (simp add: demo_env_def demo_json_loads_def)
  have m: "api_Mapping_create demo_env (dict_get ?kvs ''item_type_id'') (JObj [(''a'', JInt 1)])
             (session (start empty_db))
           = (Inr (), empty_db\<lparr>mappings := [(JInt 5, JObj [(''a'', JInt 1)])]\<rparr>)"
    by (simp add: demo_env_def demo_mapping_create_def dict_get_def start_def empty_db_def)
  show ?thesis
    using mapping_register_stores_parsed
            [OF json_request_headers json_request_body k l m demo_commit_ok]
    by (simp add: demo_gettext dict_get_def start_def)
qed

subsection \<open>Bodies without the required key\<close>

text \<open>
  C10. With the JSON content type and a JSON object as body: a register request without
  \<open>table_row_map\<close> fails inside the \<open>try\<close> block, where \<open>.get('name')\<close> is applied to
  \<open>None\<close>, and a mapping_register request whose \<open>mapping\<close> is absent or not a string
  fails inside it in \<open>json.loads\<close>. In both the handler rolls the session back and answers
  Fail; no data-layer call has been made and nothing is raised.
\<close>

theorem missing_key_fails_softly:
  assumes "headers req ''Content-Type'' = Some ''application/json''"
    and "json_body req = Some (JObj kvs)"
  shows "(map_of kvs ''table_row_map'' = None
          \<longrightarrow> register env req item_type_id w
              = (Inr (Jsonify (JObj [(''msg'', JStr (gettext env ''Fail''))])),
                 w\<lparr>session := committed w, calls := calls w @ [Session_rollback_call]\<rparr>))
       \<and> ((\<forall>s. dict_get kvs ''mapping'' \<noteq> JStr s)
          \<longrightarrow> mapping_register env req w
              = (Inr (Jsonify (JObj [(''msg'', JStr (gettext env ''Fail''))])),
                 w\<lparr>session := committed w, calls := calls w @ [Session_rollback_call],
                   debug_log := debug_log w @ [LogJson (JObj kvs)]\<rparr>))"
proof (intro conjI impI)
  assume "map_of kvs ''table_row_map'' = None"
  then have "py_get2 (JObj kvs) ''table_row_map'' ''name'' = Inl AttributeError"
    by (simp add: py_get2_def bindE_def dict_get_def)
  then show "register env req item_type_id w
              = (Inr (Jsonify (JObj [(''msg'', JStr (gettext env ''Fail''))])),
                 w\<lparr>session := committed w, calls := calls w @ [Session_rollback_call]\<rparr>)"
    using assms
    by (simp add: register_def register_try_def headers_getitem_def get_json_def jsonify_msg_def
        M_defs)
next
  assume "\<forall>s. dict_get kvs ''mapping'' \<noteq> JStr s"
  then have "py_json_loads env (dict_get kvs ''mapping'') = Inl TypeError"
    by (cases "dict_get kvs ''mapping''") simp_all
  then show "mapping_register env req w
              = (Inr (Jsonify (JObj [(''msg'', JStr (gettext env ''Fail''))])),
                 w\<lparr>session := committed w, calls := calls w @ [Session_rollback_call],
                   debug_log := debug_log w @ [LogJson (JObj kvs)]\<rparr>)"
    using assms
    by (simp add: mapping_register_def headers_getitem_def get_json_def jsonify_msg_def M_defs)
qed

text \<open>A body that holds \<open>item_type_id\<close> only, sent to both views.\<close>

theorem missing_key_fails_softly_witness:
  "register demo_env (json_request ''application/json'' (JObj [(''item_type_id'', JInt 5)])) 0
     (start one_db)
     = (Inr (Jsonify (JObj [(''msg'', JStr ''Fail'')])),
        \<lparr>committed = one_db, session = one_db, calls = [Session_rollback_call],
         debug_log = []\<rparr>)
   \<and> mapping_register demo_env
       (json_request ''application/json'' (JObj [(''item_type_id'', JInt 5)])) (start one_db)
     = (Inr (Jsonify (JObj [(''msg'', JStr ''Fail'')])),
        \<lparr>committed = one_db, session = one_db, calls = [Session_rollback_call],
         debug_log = [LogJson (JObj [(''item_type_id'', JInt 5)])]\<rparr>)"
  using missing_key_fails_softly
          [OF json_request_headers json_request_body,
           where env = demo_env and w = "start one_db" and item_type_id = 0]
  by (simp add: demo_gettext dict_get_def start_def)

end
